theory Spec2Isabelle
  imports Main "HOL-Library.AList" "HOL-Library.Sublist"
begin

section \<open>Data model of the tutorial pipeline (src/components/Tutorial.js)\<close>

text \<open>
  A JavaScript \<^verbatim>\<open>throw new Error(msg)\<close> is the value \<open>Inl (Error msg)\<close>; destructuring
  \<^verbatim>\<open>undefined\<close> is \<open>Inl TypeError\<close>.
\<close>

datatype error = Error string | TypeError

text \<open>
  FileState is \<^verbatim>\<open>{ code, language }\<close>; the object returned by \<^verbatim>\<open>parseCodeBlockProps\<close> has the
  same two fields and \<^verbatim>\<open>fileName\<close>.
\<close>

record fileState =
  code :: string
  language :: string

record codeBlockProps = fileState +
  fileName :: string

text \<open>
  A ProjectState is a JavaScript \<^verbatim>\<open>Map\<close>: a mutable object that keeps its entries in
  insertion order. The contents of one Map are an association list with distinct keys.
  Maps live in a store; a variable holding a Map holds its address. \<^verbatim>\<open>new Map(..)\<close>
  allocates at the end of the store, \<^verbatim>\<open>set\<close> writes in place (an existing key keeps its
  position, a new key goes last) and returns the Map it was called on.
\<close>

type_synonym entries = "(string \<times> fileState) list"
type_synonym ref = nat
type_synonym heap = "entries list"

definition Map_new :: "entries \<Rightarrow> heap \<Rightarrow> ref \<times> heap" where
  "Map_new es h = (length h, h @ [es])"

definition Map_has :: "heap \<Rightarrow> ref \<Rightarrow> string \<Rightarrow> bool" where
  "Map_has h m k = (map_of (h ! m) k \<noteq> None)"

definition Map_get :: "heap \<Rightarrow> ref \<Rightarrow> string \<Rightarrow> fileState option" where
  "Map_get h m k = map_of (h ! m) k"

definition Map_set :: "ref \<Rightarrow> string \<Rightarrow> fileState \<Rightarrow> heap \<Rightarrow> ref \<times> heap" where
  "Map_set m k v h = (m, h[m := AList.update k v (h ! m)])"

text \<open>\<^verbatim>\<open>const clone = (map) => new Map(map);\<close>\<close>

definition clone :: "ref \<Rightarrow> heap \<Rightarrow> ref \<times> heap" where
  "clone m h = Map_new (h ! m) h"

text \<open>
  The input is the tree of elements that the MDX renderer hands to \<^verbatim>\<open>Tutorial\<close>: every
  node has \<^verbatim>\<open>props.mdxType\<close>, \<^verbatim>\<open>props.children\<close> (already an array, so that
  \<^verbatim>\<open>Children.toArray\<close> is the identity) and further props \<open>'p\<close> that only the code-block
  utilities read.
\<close>

datatype 'p node = Node (mdxType: string) (rest: 'p) (children: "'p node list")

text \<open>
  The output holds input nodes passed through as they are, the
  \<^verbatim>\<open><TutorialEditor key focusedFileName diff project />\<close> nodes, and
  \<^verbatim>\<open>cloneElement(node, { children, stepNumber, totalSteps })\<close>, the node with these
  props overridden (\<open>None\<close> for a prop that is not overridden).
\<close>

datatype ('p, 'd) element =
    Child "'p node"
  | TutorialEditor (key: nat) (focusedFileName: string) (diff: 'd) (project: ref)
  | CloneElement "'p node" "('p, 'd) element list" "nat option" "nat option"

text \<open>
  What \<^verbatim>\<open>Tutorial.js\<close> imports from other modules and calls on nodes and code:
  \<^verbatim>\<open>isCodeBlock\<close> and \<^verbatim>\<open>isShellCommand\<close> (utils/codeBlock), \<^verbatim>\<open>parseCodeBlockProps\<close>
  (utils/parseCodeBlockProps) and \<^verbatim>\<open>diffLines\<close> (the package \<^verbatim>\<open>diff\<close>, with results of
  type \<open>'d\<close>). They are parameters of every function below, so that each theorem holds
  for every implementation of them.
\<close>

record ('p, 'd) utils =
  isCodeBlock :: "'p node \<Rightarrow> bool"
  isShellCommand :: "'p node \<Rightarrow> bool"
  parseCodeBlockProps :: "'p node \<Rightarrow> codeBlockProps"
  diffLines :: "string \<Rightarrow> string \<Rightarrow> 'd"

text \<open>
  Modelled from the spec: \<^verbatim>\<open>isMdxType\<close> (utils/mdx) is not among the sources. The spec
  types every node by a discriminator string; \<^verbatim>\<open>Tutorial.js\<close> reads the same
  discriminator as \<^verbatim>\<open>child.props.mdxType\<close> in \<^verbatim>\<open>parseProjectStateFromChildren\<close>.
\<close>

definition isMdxType :: "'p node \<Rightarrow> string \<Rightarrow> bool" where
  "isMdxType child t = (mdxType child = t)"

text \<open>
  Modelled from the spec: \<^verbatim>\<open>useOnMount\<close> (hooks/useOnMount) is not among the sources. The
  spec's control flow is normalize, validate, assemble, with validation before assembly,
  so the callback runs where the hook is called.
\<close>

definition useOnMount :: "(unit \<Rightarrow> error + unit) \<Rightarrow> error + unit" where
  "useOnMount f = f ()"

section \<open>Array helpers\<close>

text \<open>
  \<^verbatim>\<open>array.reduce((memo, x, idx) => .., init)\<close> for a callback that reads and writes the
  store and may throw: the first exception ends the loop, with the store as it is then.
\<close>

fun reduce ::
  "('a \<Rightarrow> 'b \<Rightarrow> nat \<Rightarrow> heap \<Rightarrow> (error + 'a) \<times> heap) \<Rightarrow> 'b list \<Rightarrow> nat \<Rightarrow> 'a \<Rightarrow> heap
    \<Rightarrow> (error + 'a) \<times> heap" where
  "reduce f [] idx memo h = (Inr memo, h)"
| "reduce f (x # xs) idx memo h =
     (case f memo x idx h of
        (Inl e, h') \<Rightarrow> (Inl e, h')
      | (Inr memo', h') \<Rightarrow> reduce f xs (Suc idx) memo' h')"

text \<open>\<^verbatim>\<open>array.findIndex(p)\<close>: the first index whose element satisfies \<open>p\<close>, or -1.\<close>

fun findIndex :: "('a \<Rightarrow> bool) \<Rightarrow> 'a list \<Rightarrow> int" where
  "findIndex p [] = - 1"
| "findIndex p (x # xs) =
     (if p x then 0 else (let i = findIndex p xs in if i < 0 then - 1 else i + 1))"

section \<open>Step assembly\<close>

definition missingFileMessage :: "codeBlockProps \<Rightarrow> string" where
  "missingFileMessage p =
     ''The following block does not have a file name that matches the project. Please ensure the code block has a `fileName` specified:''
     @ [CHR 0x0A, CHR 0x0A] @ ''```'' @ language p @ [CHR 0x0A] @ code p @ [CHR 0x0A] @ ''```'' @ [CHR 0x0A]"

text \<open>The callback of the \<^verbatim>\<open>reduce\<close> in \<^verbatim>\<open>swapCodeBlocks\<close>.\<close>

definition swapCodeBlocks_callback ::
  "('p, 'd) utils \<Rightarrow> ('p, 'd) element list \<times> ref \<Rightarrow> 'p node \<Rightarrow> nat \<Rightarrow> heap
    \<Rightarrow> (error + ('p, 'd) element list \<times> ref) \<times> heap" where
  "swapCodeBlocks_callback u memo child idx h =
     (case memo of (children', currentProjectState) \<Rightarrow>
        if \<not> isCodeBlock u child \<or> isShellCommand u child
        then (Inr (children' @ [Child child], currentProjectState), h)
        else
          let p = parseCodeBlockProps u child in
          if \<not> Map_has h currentProjectState (fileName p)
          then (Inl (Error (missingFileMessage p)), h)
          else
            (case Map_get h currentProjectState (fileName p) of
               None \<Rightarrow> (Inl TypeError, h)
             | Some fs \<Rightarrow>
                 let prevCode = code fs;
                     (m, h1) = clone currentProjectState h;
                     (projectState, h2) =
                        Map_set m (fileName p)
                          \<lparr>code = code p, language = language p\<rparr> h1
                 in (Inr (children' @
                            [TutorialEditor idx (fileName p)
                               (diffLines u prevCode (code p)) projectState],
                          projectState), h2)))"

definition swapCodeBlocks ::
  "('p, 'd) utils \<Rightarrow> 'p node \<Rightarrow> ref \<Rightarrow> heap
    \<Rightarrow> (error + ('p, 'd) element list \<times> ref) \<times> heap" where
  "swapCodeBlocks u stepElement initialProjectState h =
     reduce (swapCodeBlocks_callback u) (children stepElement) 0 ([], initialProjectState) h"

text \<open>
  The callback of the \<^verbatim>\<open>reduce\<close> in \<^verbatim>\<open>gatherSteps\<close>; the memo
  \<^verbatim>\<open>{ steps, currentProjectState }\<close> is a pair.
\<close>

definition gatherSteps_callback ::
  "('p, 'd) utils \<Rightarrow> ('p, 'd) element list \<times> ref \<Rightarrow> 'p node \<Rightarrow> nat \<Rightarrow> heap
    \<Rightarrow> (error + ('p, 'd) element list \<times> ref) \<times> heap" where
  "gatherSteps_callback u memo stepElement idx h =
     (case memo of (steps, currentProjectState) \<Rightarrow>
        (case swapCodeBlocks u stepElement currentProjectState h of
           (Inl e, h') \<Rightarrow> (Inl e, h')
         | (Inr (children', projectState), h') \<Rightarrow>
             (Inr (steps @
                     [CloneElement stepElement children' (Some (idx + 1))
                        (Some (length children'))],
                   projectState), h')))"

definition gatherSteps ::
  "('p, 'd) utils \<Rightarrow> 'p node list \<Rightarrow> ref \<Rightarrow> heap
    \<Rightarrow> (error + ('p, 'd) element list \<times> ref) \<times> heap" where
  "gatherSteps u cs initialProjectState h =
     reduce (gatherSteps_callback u) cs 0 ([], initialProjectState) h"

section \<open>Section assembly\<close>

definition gatherSections_callback ::
  "('p, 'd) utils \<Rightarrow> ('p, 'd) element list \<times> ref \<Rightarrow> 'p node \<Rightarrow> nat \<Rightarrow> heap
    \<Rightarrow> (error + ('p, 'd) element list \<times> ref) \<times> heap" where
  "gatherSections_callback u memo child idx h =
     (case memo of (elements, currentProjectState) \<Rightarrow>
        if isMdxType child ''TutorialSection''
        then
          (case gatherSteps u (children child) currentProjectState h of
             (Inl e, h') \<Rightarrow> (Inl e, h')
           | (Inr (steps, projectState), h') \<Rightarrow>
               (Inr (elements @ [CloneElement child steps None None], projectState), h'))
        else (Inr (elements @ [Child child], currentProjectState), h))"

text \<open>The \<^verbatim>\<open>reduce\<close> of \<^verbatim>\<open>gatherSections\<close>, with its whole memo.\<close>

definition gatherSections_memo ::
  "('p, 'd) utils \<Rightarrow> 'p node list \<Rightarrow> ref \<Rightarrow> heap
    \<Rightarrow> (error + ('p, 'd) element list \<times> ref) \<times> heap" where
  "gatherSections_memo u cs initialProjectState h =
     reduce (gatherSections_callback u) cs 0 ([], initialProjectState) h"

definition gatherSections ::
  "('p, 'd) utils \<Rightarrow> 'p node list \<Rightarrow> ref \<Rightarrow> heap
    \<Rightarrow> (error + ('p, 'd) element list) \<times> heap" where
  "gatherSections u cs initialProjectState h =
     (case gatherSections_memo u cs initialProjectState h of
        (Inl e, h') \<Rightarrow> (Inl e, h')
      | (Inr (elements, currentProjectState), h') \<Rightarrow> (Inr elements, h'))"

section \<open>The initial project state\<close>

definition parseProjectStateFromConfig ::
  "('p, 'd) utils \<Rightarrow> 'p node \<Rightarrow> heap \<Rightarrow> ref \<times> heap" where
  "parseProjectStateFromConfig u configElement h =
     foldl
       (\<lambda>(m, h) child.
          let p = parseCodeBlockProps u child in
          if Map_has h m (fileName p) then (m, h)
          else Map_set m (fileName p) \<lparr>code = code p, language = language p\<rparr> h)
       (Map_new [] h)
       (filter (\<lambda>child. isCodeBlock u child \<and> \<not> isShellCommand u child)
          (children configElement))"

definition findCodeBlocksInTutorialStep :: "('p, 'd) utils \<Rightarrow> 'p node \<Rightarrow> 'p node list" where
  "findCodeBlocksInTutorialStep u stepElement =
     filter (\<lambda>child. isCodeBlock u child \<and> \<not> isShellCommand u child) (children stepElement)"

definition findCodeBlocksInTutorialSection :: "('p, 'd) utils \<Rightarrow> 'p node \<Rightarrow> 'p node list" where
  "findCodeBlocksInTutorialSection u sectionElement =
     concat (map (findCodeBlocksInTutorialStep u) (children sectionElement))"

definition parseProjectStateFromChildren ::
  "('p, 'd) utils \<Rightarrow> 'p node list \<Rightarrow> heap \<Rightarrow> ref \<times> heap" where
  "parseProjectStateFromChildren u cs h =
     foldl
       (\<lambda>(m, h) codeBlock.
          let p = parseCodeBlockProps u codeBlock in
          if Map_has h m (fileName p) then (m, h)
          else Map_set m (fileName p) \<lparr>code = [], language = language p\<rparr> h)
       (Map_new [] h)
       (concat (map
          (\<lambda>child.
             if mdxType child = ''TutorialStep'' then findCodeBlocksInTutorialStep u child
             else if mdxType child = ''TutorialSection''
             then findCodeBlocksInTutorialSection u child
             else [])
          cs))"

section \<open>Validation\<close>

text \<open>The three messages, as the source has them.\<close>

definition projectNotFirstMessage :: string where
  "projectNotFirstMessage =
     ''Tutorial: A `Project` element was detected but does not reside as the first child of the `Tutorial`. Please move it to the first child of the `Tutorial`.''"

definition stepOutsideSectionMessage :: string where
  "stepOutsideSectionMessage =
     ''Tutorial: A `TutorialStep` was detected outside of a `TutorialSection`. Please ensure the element is wrapped in a `TutorialSection`.''"

definition childNotStepMessage :: string where
  "childNotStepMessage =
     ''Tutorial: Every child of a `Tutorial` must be wrapped in a `TutorialStep`. If you meant to include a non `TutorialStep` in the `Tutorial`, wrap each section in a `TutorialSection` or move the content inside of the `TutorialStep`.''"

definition validateSections :: "'p node list \<Rightarrow> error + unit" where
  "validateSections cs =
     (let isValid = list_all (\<lambda>child. \<not> isMdxType child ''TutorialStep'') cs in
      if \<not> isValid then Inl (Error stepOutsideSectionMessage) else Inr ())"

definition validateTutorialSteps :: "'p node list \<Rightarrow> error + unit" where
  "validateTutorialSteps cs =
     (let isValid = list_all (\<lambda>child. isMdxType child ''TutorialStep'') cs in
      if \<not> isValid then Inl (Error childNotStepMessage) else Inr ())"

definition validateChildren :: "'p node list \<Rightarrow> error + unit" where
  "validateChildren cs =
     (let isSectioned = list_ex (\<lambda>child. isMdxType child ''TutorialSection'') cs;
          projectElementIdx = findIndex (\<lambda>child. isMdxType child ''Project'') cs
      in
        if projectElementIdx > 0 then Inl (Error projectNotFirstMessage)
        else
          (let cs' = drop 1 cs in
           if isSectioned then validateSections cs' else validateTutorialSteps cs'))"

section \<open>The component\<close>

text \<open>
  \<^verbatim>\<open>children[0]\<close> of an empty array is \<^verbatim>\<open>undefined\<close>, which has no type: no project
  element then.
\<close>

definition Tutorial ::
  "('p, 'd) utils \<Rightarrow> 'p node list \<Rightarrow> heap \<Rightarrow> (error + ('p, 'd) element list) \<times> heap" where
  "Tutorial u cs h =
     (case useOnMount (\<lambda>_. validateChildren cs) of
        Inl e \<Rightarrow> (Inl e, h)
      | Inr _ \<Rightarrow>
          let isSectioned = list_ex (\<lambda>child. isMdxType child ''TutorialSection'') cs;
              projectElement =
                (case cs of
                   [] \<Rightarrow> None
                 | c # _ \<Rightarrow> if isMdxType c ''Project'' then Some c else None);
              cs' = (if projectElement \<noteq> None then drop 1 cs else cs);
              (initialProjectState, h0) =
                (case projectElement of
                   Some configElement \<Rightarrow> parseProjectStateFromConfig u configElement h
                 | None \<Rightarrow> parseProjectStateFromChildren u cs' h)
          in
            if isSectioned then gatherSections u cs' initialProjectState h0
            else
              (case gatherSteps u cs' initialProjectState h0 of
                 (Inl e, h') \<Rightarrow> (Inl e, h')
               | (Inr (steps, currentProjectState), h') \<Rightarrow> (Inr steps, h')))"

section \<open>First occurrence wins\<close>

text \<open>
  The mapping that a list of (file name, value) pairs describes when the first occurrence
  of a file name wins and later duplicates are ignored, in the order of first occurrence.
\<close>

fun firstWins :: "(string \<times> 'v) list \<Rightarrow> (string \<times> 'v) list" where
  "firstWins [] = []"
| "firstWins (e # es) = e # filter (\<lambda>e'. fst e' \<noteq> fst e) (firstWins es)"

section \<open>An instance of the imported functions, for examples\<close>

text \<open>
  Code blocks are the \<^verbatim>\<open>pre\<close> nodes, their further props are the parsed props, a shell
  command has the language \<^verbatim>\<open>shell\<close>, and the stand-in for the diff returns its two
  arguments.
\<close>

definition fixture_utils :: "(codeBlockProps option, string \<times> string) utils" where
  "fixture_utils =
     \<lparr>isCodeBlock = (\<lambda>n. mdxType n = ''pre''),
      isShellCommand = (\<lambda>n. case rest n of Some p \<Rightarrow> language p = ''shell'' | None \<Rightarrow> False),
      parseCodeBlockProps =
        (\<lambda>n. case rest n of Some p \<Rightarrow> p
              | None \<Rightarrow> \<lparr>code = [], language = [], fileName = []\<rparr>),
      diffLines = Pair\<rparr>"

definition fixture_block :: "string \<Rightarrow> string \<Rightarrow> string \<Rightarrow> codeBlockProps option node" where
  "fixture_block f l c = Node ''pre'' (Some \<lparr>code = c, language = l, fileName = f\<rparr>) []"

section \<open>The loops and the store\<close>

lemma reduce_append:
  "reduce f (xs @ ys) idx memo h =
     (case reduce f xs idx memo h of
        (Inl e, h') \<Rightarrow> (Inl e, h')
      | (Inr memo', h') \<Rightarrow> reduce f ys (idx + length xs) memo' h')"
  by (induction xs arbitrary: idx memo h) (auto split: prod.splits sum.splits)

text \<open>A loop whose callback only allocates leaves every Map that was there as it was.\<close>

lemma reduce_frame:
  assumes step: "\<And>memo x idx h res h'. f memo x idx h = (res, h') \<Longrightarrow> prefix h h'"
  shows "reduce f xs idx memo h = (res, h') \<Longrightarrow> prefix h h'"
proof (induction xs arbitrary: idx memo h)
  case Nil
  then show ?case by simp
next
  case (Cons x xs)
  obtain r h1 where fx: "f memo x idx h = (r, h1)" by (cases "f memo x idx h")
  have p1: "prefix h h1" using step [OF fx] .
  show ?case
  proof (cases r)
    case (Inl e)
    with Cons.prems fx have "h' = h1" by simp
    with p1 show ?thesis by simp
  next
    case (Inr memo')
    with Cons.prems fx have "reduce f xs (Suc idx) memo' h1 = (res, h')" by simp
    from Cons.IH [OF this] p1 show ?thesis by (rule prefix_order.trans [rotated])
  qed
qed

subsection \<open>One child of a step\<close>

lemma callback_missing:
  "isCodeBlock u child \<Longrightarrow> \<not> isShellCommand u child \<Longrightarrow>
   \<not> Map_has h cps (fileName (parseCodeBlockProps u child)) \<Longrightarrow>
   swapCodeBlocks_callback u (ks, cps) child idx h =
     (Inl (Error (missingFileMessage (parseCodeBlockProps u child))), h)"
  by (simp add: swapCodeBlocks_callback_def)

lemma callback_swap:
  "isCodeBlock u child \<Longrightarrow> \<not> isShellCommand u child \<Longrightarrow>
   Map_get h cps (fileName (parseCodeBlockProps u child)) = Some fs \<Longrightarrow>
   swapCodeBlocks_callback u (ks, cps) child idx h =
     (Inr (ks @ [TutorialEditor idx (fileName (parseCodeBlockProps u child))
                   (diffLines u (code fs) (code (parseCodeBlockProps u child))) (length h)],
           length h),
      h @ [AList.update (fileName (parseCodeBlockProps u child))
             \<lparr>code = code (parseCodeBlockProps u child),
              language = language (parseCodeBlockProps u child)\<rparr> (h ! cps)])"
  by (simp add: swapCodeBlocks_callback_def Map_has_def Map_get_def clone_def Map_new_def
      Map_set_def Let_def)

lemma callback_frame:
  "swapCodeBlocks_callback u (ks, cps) child idx h = (res, h') \<Longrightarrow> prefix h h'"
  by (auto simp: swapCodeBlocks_callback_def Map_has_def Map_get_def clone_def Map_new_def
      Map_set_def Let_def split: if_splits option.splits)

lemma swapCodeBlocks_frame:
  "swapCodeBlocks u stepElement s h = (res, h') \<Longrightarrow> prefix h h'"
  unfolding swapCodeBlocks_def
  by (rule reduce_frame [where f = "swapCodeBlocks_callback u"])
     (auto dest: callback_frame)

lemma sublist_code_message: "sublist (code p) (missingFileMessage p)"
  unfolding missingFileMessage_def sublist_def by (metis append.assoc)

lemma sublist_language_message: "sublist (language p) (missingFileMessage p)"
  unfolding missingFileMessage_def sublist_def by (metis append.assoc)

section \<open>A code block for a file that the project does not have\<close>

text \<open>
  C1. Let the children of a step before \<open>child\<close> be assembled without error, leaving the
  current ProjectState \<open>cps\<close> in the store \<open>h1\<close>. If \<open>child\<close> is a code block, not a shell
  command, and its file name is not a key of \<open>cps\<close>, then \<^verbatim>\<open>swapCodeBlocks\<close> on the step
  throws. The store at the throw is \<open>h1\<close>: the failing child has neither allocated nor
  written a Map, and every Map of the store that \<^verbatim>\<open>swapCodeBlocks\<close> was called in, the
  ProjectState passed in among them, is as it was. The message contains the code and the
  language of the block.
\<close>

theorem swapCodeBlocks_missing_file:
  assumes before: "swapCodeBlocks u (Node t r pre) initialProjectState h = (Inr (out, cps), h1)"
    and block: "isCodeBlock u child" "\<not> isShellCommand u child"
    and absent: "\<not> Map_has h1 cps (fileName (parseCodeBlockProps u child))"
    and step: "children stepElement = pre @ child # post"
  shows "swapCodeBlocks u stepElement initialProjectState h =
           (Inl (Error (missingFileMessage (parseCodeBlockProps u child))), h1)
         \<and> prefix h h1
         \<and> (initialProjectState < length h \<longrightarrow>
                h1 ! initialProjectState = h ! initialProjectState)
         \<and> sublist (code (parseCodeBlockProps u child))
              (missingFileMessage (parseCodeBlockProps u child))
         \<and> sublist (language (parseCodeBlockProps u child))
              (missingFileMessage (parseCodeBlockProps u child))"
proof -
  have "reduce (swapCodeBlocks_callback u) pre 0 ([], initialProjectState) h = (Inr (out, cps), h1)"
    using before by (simp add: swapCodeBlocks_def)
  then have "swapCodeBlocks u stepElement initialProjectState h =
      (Inl (Error (missingFileMessage (parseCodeBlockProps u child))), h1)"
    using block absent step
    by (simp add: swapCodeBlocks_def reduce_append callback_missing)
  moreover have frame: "prefix h h1" using before by (rule swapCodeBlocks_frame)
  moreover have "h1 ! initialProjectState = h ! initialProjectState"
    if "initialProjectState < length h"
    using frame that by (auto simp: prefix_def nth_append)
  ultimately show ?thesis
    by (simp add: sublist_code_message sublist_language_message)
qed

text \<open>
  The project has \<^verbatim>\<open>index.js\<close>; the step is a block for \<^verbatim>\<open>index.js\<close> followed by a block
  for \<^verbatim>\<open>other.js\<close>. The store at the throw holds the snapshot that the first block made,
  and the ProjectState passed in, at address 0, as it was.
\<close>

theorem swapCodeBlocks_missing_file_witness:
  "swapCodeBlocks fixture_utils (Node ''TutorialStep'' None [fixture_block ''index.js'' ''js'' ''b'']) 0
      [[(''index.js'', \<lparr>code = ''a'', language = ''js''\<rparr>)]] =
     (Inr ([TutorialEditor 0 ''index.js'' (''a'', ''b'') 1], 1),
      [[(''index.js'', \<lparr>code = ''a'', language = ''js''\<rparr>)],
       [(''index.js'', \<lparr>code = ''b'', language = ''js''\<rparr>)]])
   \<and> isCodeBlock fixture_utils (fixture_block ''other.js'' ''js'' ''c'')
   \<and> \<not> isShellCommand fixture_utils (fixture_block ''other.js'' ''js'' ''c'')
   \<and> \<not> Map_has
        [[(''index.js'', \<lparr>code = ''a'', language = ''js''\<rparr>)],
       [(''index.js'', \<lparr>code = ''b'', language = ''js''\<rparr>)]] 1 ''other.js''
   \<and> swapCodeBlocks fixture_utils
        (Node ''TutorialStep'' None [fixture_block ''index.js'' ''js'' ''b'', fixture_block ''other.js'' ''js'' ''c''])
        0 [[(''index.js'', \<lparr>code = ''a'', language = ''js''\<rparr>)]] =
       (Inl (Error (missingFileMessage \<lparr>code = ''c'', language = ''js'', fileName = ''other.js''\<rparr>)),
        [[(''index.js'', \<lparr>code = ''a'', language = ''js''\<rparr>)],
       [(''index.js'', \<lparr>code = ''b'', language = ''js''\<rparr>)]])
   \<and> sublist ''c'' (missingFileMessage \<lparr>code = ''c'', language = ''js'', fileName = ''other.js''\<rparr>)
   \<and> sublist ''js'' (missingFileMessage \<lparr>code = ''c'', language = ''js'', fileName = ''other.js''\<rparr>)"
proof -
  let ?h = "[[(''index.js'', \<lparr>code = ''a'', language = ''js''\<rparr>)]]"
  let ?h1 = "[[(''index.js'', \<lparr>code = ''a'', language = ''js''\<rparr>)],
       [(''index.js'', \<lparr>code = ''b'', language = ''js''\<rparr>)]]"
  let ?a = "fixture_block ''index.js'' ''js'' ''b''"
  let ?b = "fixture_block ''other.js'' ''js'' ''c''"
  have p [simp]: "parseCodeBlockProps fixture_utils ?b = \<lparr>code = ''c'', language = ''js'', fileName = ''other.js''\<rparr>"
    by (simp add: fixture_utils_def fixture_block_def)
  have 1: "swapCodeBlocks fixture_utils (Node ''TutorialStep'' None [?a]) 0 ?h =
      (Inr ([TutorialEditor 0 ''index.js'' (''a'', ''b'') 1], 1), ?h1)"
    by (simp add: swapCodeBlocks_def swapCodeBlocks_callback_def Map_has_def Map_get_def
        clone_def Map_new_def Map_set_def fixture_utils_def fixture_block_def)
  have 2: "isCodeBlock fixture_utils ?b"
    by (simp add: fixture_utils_def fixture_block_def)
  have 3: "\<not> isShellCommand fixture_utils ?b"
    by (simp add: fixture_utils_def fixture_block_def)
  have 4: "\<not> Map_has ?h1 1 (fileName (parseCodeBlockProps fixture_utils ?b))"
    by (simp add: Map_has_def)
  have 5: "children (Node ''TutorialStep'' None [?a, ?b]) = [?a] @ ?b # []"
    by simp
  show ?thesis
    using swapCodeBlocks_missing_file [OF 1 2 3 4 5] 1 2 3 4 by simp
qed

section \<open>Copy on write\<close>

lemma reduce_invariant:
  assumes step: "\<And>memo x idx h memo' h'. I memo h \<Longrightarrow> f memo x idx h = (Inr memo', h') \<Longrightarrow> I memo' h'"
  shows "I memo h \<Longrightarrow> reduce f xs idx memo h = (Inr memo', h') \<Longrightarrow> I memo' h'"
proof (induction xs arbitrary: idx memo h)
  case Nil
  then show ?case by simp
next
  case (Cons x xs)
  obtain r h1 where fx: "f memo x idx h = (r, h1)" by (cases "f memo x idx h")
  show ?case
  proof (cases r)
    case (Inl e)
    with Cons.prems fx show ?thesis by simp
  next
    case (Inr m1)
    with Cons.prems fx have run: "reduce f xs (Suc idx) m1 h1 = (Inr memo', h')" by simp
    have "I m1 h1" using step [OF Cons.prems(1)] fx Inr by simp
    from Cons.IH [OF this run] show ?thesis .
  qed
qed

text \<open>The current ProjectState is always a Map of the store.\<close>

lemma callback_ref:
  "snd memo < length h \<Longrightarrow> swapCodeBlocks_callback u memo child idx h = (Inr memo', h') \<Longrightarrow>
   snd memo' < length h'"
  by (cases memo)
     (auto simp: swapCodeBlocks_callback_def Map_has_def Map_get_def clone_def Map_new_def
      Map_set_def Let_def split: if_splits option.splits)

lemma swapCodeBlocks_ref:
  assumes "s < length h" "swapCodeBlocks u stepElement s h = (Inr (out, cps), h')"
  shows "cps < length h'"
proof -
  have "snd (out, cps) < length h'"
    by (rule reduce_invariant [where I = "\<lambda>memo h. snd memo < length h"
          and f = "swapCodeBlocks_callback u" and memo = "([], s)" and h = h
          and xs = "children stepElement" and idx = 0])
       (use assms in \<open>auto simp: swapCodeBlocks_def intro: callback_ref\<close>)
  then show ?thesis by simp
qed

text \<open>
  C8. Let the children of a step before \<open>child\<close> be assembled without error, leaving the
  current ProjectState \<open>cps\<close> in the store \<open>h1\<close>, and let \<open>child\<close> be a code block, not a
  shell command, for a file that \<open>cps\<close> has, with previous entry \<open>prev\<close>. Then the
  substitution succeeds and emits an editor node whose diff is taken from the previous
  code to the new code and whose project is a new Map: its address is not one of \<open>h1\<close>;
  every Map of \<open>h1\<close> is as it was, \<open>cps\<close> among them; the new Map has \<^verbatim>\<open>{code, language}\<close>
  of the block at the file name, the entries of \<open>cps\<close> at every other file name, and the
  keys of \<open>cps\<close> in their order. The new Map is the current ProjectState afterwards.
\<close>

theorem swapCodeBlocks_copy_on_write:
  assumes before: "swapCodeBlocks u (Node t r pre) initialProjectState h = (Inr (out, cps), h1)"
    and allocated: "initialProjectState < length h"
    and block: "isCodeBlock u child" "\<not> isShellCommand u child"
    and present: "Map_has h1 cps (fileName (parseCodeBlockProps u child))"
    and step: "children stepElement = pre @ [child]"
  shows "\<exists>prev projectState h2.
           Map_get h1 cps (fileName (parseCodeBlockProps u child)) = Some prev
           \<and> swapCodeBlocks u stepElement initialProjectState h =
             (Inr (out @ [TutorialEditor (length pre) (fileName (parseCodeBlockProps u child))
                            (diffLines u (code prev) (code (parseCodeBlockProps u child)))
                            projectState],
                   projectState), h2)
           \<and> projectState = length h1
           \<and> prefix h1 h2
           \<and> h2 ! cps = h1 ! cps
           \<and> Map_get h2 projectState (fileName (parseCodeBlockProps u child)) =
               Some \<lparr>code = code (parseCodeBlockProps u child),
                     language = language (parseCodeBlockProps u child)\<rparr>
           \<and> (\<forall>f. f \<noteq> fileName (parseCodeBlockProps u child) \<longrightarrow>
                  Map_get h2 projectState f = Map_get h1 cps f)
           \<and> map fst (h2 ! projectState) = map fst (h1 ! cps)"
proof -
  let ?p = "parseCodeBlockProps u child"
  let ?v = "\<lparr>code = code ?p, language = language ?p\<rparr>"
  let ?h2 = "h1 @ [AList.update (fileName ?p) ?v (h1 ! cps)]"
  from present obtain fs where fs: "Map_get h1 cps (fileName ?p) = Some fs"
    by (auto simp: Map_has_def Map_get_def)
  have cps: "cps < length h1" using allocated before by (rule swapCodeBlocks_ref)
  have run: "reduce (swapCodeBlocks_callback u) pre 0 ([], initialProjectState) h = (Inr (out, cps), h1)"
    using before by (simp add: swapCodeBlocks_def)
  have res: "swapCodeBlocks u stepElement initialProjectState h =
      (Inr (out @ [TutorialEditor (length pre) (fileName ?p) (diffLines u (code fs) (code ?p))
                     (length h1)], length h1), ?h2)"
    using run step by (simp add: swapCodeBlocks_def reduce_append callback_swap [OF block fs])
  have key: "fileName ?p \<in> set (map fst (h1 ! cps))"
    using fs by (auto simp: Map_get_def dest: map_of_SomeD intro: rev_image_eqI)
  have "Map_get ?h2 (length h1) (fileName ?p) = Some ?v"
    by (simp add: Map_get_def update_conv')
  moreover have "\<forall>f. f \<noteq> fileName ?p \<longrightarrow> Map_get ?h2 (length h1) f = Map_get h1 cps f"
    by (simp add: Map_get_def update_conv')
  moreover have "map fst (?h2 ! length h1) = map fst (h1 ! cps)"
    using key by (simp add: update_keys)
  moreover have "?h2 ! cps = h1 ! cps" using cps by (simp add: nth_append)
  ultimately show ?thesis using res fs by auto
qed

text \<open>
  The project has \<^verbatim>\<open>index.js\<close> and \<^verbatim>\<open>app.js\<close>; the step is a paragraph followed by a
  block for \<^verbatim>\<open>index.js\<close>. The store ends with both snapshots.
\<close>

theorem swapCodeBlocks_copy_on_write_witness:
  "swapCodeBlocks fixture_utils (Node ''TutorialStep'' None [Node ''p'' None []]) 0
      [[(''index.js'', \<lparr>code = ''a'', language = ''js''\<rparr>),
        (''app.js'', \<lparr>code = ''x'', language = ''js''\<rparr>)]] =
     (Inr ([Child (Node ''p'' None [])], 0),
      [[(''index.js'', \<lparr>code = ''a'', language = ''js''\<rparr>),
        (''app.js'', \<lparr>code = ''x'', language = ''js''\<rparr>)]])
   \<and> isCodeBlock fixture_utils (fixture_block ''index.js'' ''jsx'' ''b'')
   \<and> \<not> isShellCommand fixture_utils (fixture_block ''index.js'' ''jsx'' ''b'')
   \<and> Map_has [[(''index.js'', \<lparr>code = ''a'', language = ''js''\<rparr>),
                (''app.js'', \<lparr>code = ''x'', language = ''js''\<rparr>)]] 0 ''index.js''
   \<and> swapCodeBlocks fixture_utils
        (Node ''TutorialStep'' None [Node ''p'' None [], fixture_block ''index.js'' ''jsx'' ''b''])
        0 [[(''index.js'', \<lparr>code = ''a'', language = ''js''\<rparr>),
            (''app.js'', \<lparr>code = ''x'', language = ''js''\<rparr>)]] =
       (Inr ([Child (Node ''p'' None []), TutorialEditor 1 ''index.js'' (''a'', ''b'') 1], 1),
        [[(''index.js'', \<lparr>code = ''a'', language = ''js''\<rparr>),
          (''app.js'', \<lparr>code = ''x'', language = ''js''\<rparr>)],
         [(''index.js'', \<lparr>code = ''b'', language = ''jsx''\<rparr>),
          (''app.js'', \<lparr>code = ''x'', language = ''js''\<rparr>)]])"
proof -
  let ?h = "[[(''index.js'', \<lparr>code = ''a'', language = ''js''\<rparr>),
              (''app.js'', \<lparr>code = ''x'', language = ''js''\<rparr>)]]"
  let ?b = "fixture_block ''index.js'' ''jsx'' ''b''"
  have p [simp]: "parseCodeBlockProps fixture_utils ?b =
      \<lparr>code = ''b'', language = ''jsx'', fileName = ''index.js''\<rparr>"
    by (simp add: fixture_utils_def fixture_block_def)
  have 1: "swapCodeBlocks fixture_utils (Node ''TutorialStep'' None [Node ''p'' None []]) 0 ?h =
      (Inr ([Child (Node ''p'' None [])], 0), ?h)"
    by (simp add: swapCodeBlocks_def swapCodeBlocks_callback_def fixture_utils_def)
  have 2: "(0::nat) < length ?h" by simp
  have 3: "isCodeBlock fixture_utils ?b"
    by (simp add: fixture_utils_def fixture_block_def)
  have 4: "\<not> isShellCommand fixture_utils ?b"
    by (simp add: fixture_utils_def fixture_block_def)
  have 5: "Map_has ?h 0 (fileName (parseCodeBlockProps fixture_utils ?b))"
    by (simp add: Map_has_def)
  have 6: "children (Node ''TutorialStep'' None [Node ''p'' None [], ?b]) = [Node ''p'' None []] @ [?b]"
    by simp
  have 7: "swapCodeBlocks fixture_utils (Node ''TutorialStep'' None [Node ''p'' None [], ?b]) 0 ?h =
       (Inr ([Child (Node ''p'' None []), TutorialEditor 1 ''index.js'' (''a'', ''b'') 1], 1),
        [?h ! 0, [(''index.js'', \<lparr>code = ''b'', language = ''jsx''\<rparr>),
                  (''app.js'', \<lparr>code = ''x'', language = ''js''\<rparr>)]])"
    by (simp add: swapCodeBlocks_def swapCodeBlocks_callback_def Map_has_def Map_get_def
        clone_def Map_new_def Map_set_def fixture_utils_def fixture_block_def)
  show ?thesis
    using swapCodeBlocks_copy_on_write [OF 1 2 3 4 5 6] 1 3 4 5 7 by simp
qed

section \<open>Validation of the children\<close>

lemma findIndex_neg: "findIndex p xs < 0 \<longleftrightarrow> \<not> list_ex p xs"
  by (induction xs) (auto simp: Let_def)

lemma findIndex_pos:
  "0 < findIndex p xs \<longleftrightarrow> (case xs of [] \<Rightarrow> False | x # ys \<Rightarrow> \<not> p x \<and> list_ex p ys)"
  by (cases xs) (auto simp: Let_def findIndex_neg not_less [symmetric] simp del: not_less)

text \<open>
  C2, as stated, fails twice. A sectioned sequence with a bare \<^verbatim>\<open>TutorialStep\<close> and a
  \<^verbatim>\<open>Project\<close> that is not the first child raises the error about the \<^verbatim>\<open>Project\<close>, which
  is checked first. And \<^verbatim>\<open>validateChildren\<close> drops the first child before it looks for
  steps, also when that child is no \<^verbatim>\<open>Project\<close>: a bare \<^verbatim>\<open>TutorialStep\<close> in first
  position raises nothing.
\<close>

theorem validateChildren_counterexample:
  "validateChildren
     [Node ''TutorialSection'' () [], Node ''Project'' () [], Node ''TutorialStep'' () []]
     = Inl (Error projectNotFirstMessage)
   \<and> projectNotFirstMessage \<noteq> stepOutsideSectionMessage
   \<and> validateChildren [Node ''TutorialStep'' () [], Node ''TutorialSection'' () []] = Inr ()"
  by (simp add: validateChildren_def validateSections_def isMdxType_def
      projectNotFirstMessage_def stepOutsideSectionMessage_def)

text \<open>
  C2, amended. In a sectioned child sequence whose \<^verbatim>\<open>Project\<close> element, if there is one,
  is the first child, a \<^verbatim>\<open>TutorialStep\<close> at any position after the first makes
  \<^verbatim>\<open>validateChildren\<close> raise the nesting-violation error.
\<close>

theorem validateChildren_bare_step:
  assumes sectioned: "list_ex (\<lambda>child. isMdxType child ''TutorialSection'') cs"
    and project:
      "list_ex (\<lambda>child. isMdxType child ''Project'') cs \<Longrightarrow> isMdxType (cs ! 0) ''Project''"
    and bare: "0 < i" "i < length cs" "isMdxType (cs ! i) ''TutorialStep''"
  shows "validateChildren cs = Inl (Error stepOutsideSectionMessage)"
proof -
  obtain c cs' where cs: "cs = c # cs'" using bare by (cases cs) auto
  have "\<not> 0 < findIndex (\<lambda>child. isMdxType child ''Project'') cs"
    unfolding findIndex_pos using project by (auto simp: cs)
  moreover have "cs' ! (i - 1) = cs ! i" "i - 1 < length cs'"
    using bare cs by (auto simp: nth_Cons')
  then have "\<not> list_all (\<lambda>child. \<not> isMdxType child ''TutorialStep'') cs'"
    using bare by (auto simp: list_all_length)
  ultimately show ?thesis
    using sectioned by (simp add: validateChildren_def validateSections_def cs)
qed

theorem validateChildren_bare_step_witness:
  "list_ex (\<lambda>child. isMdxType child ''TutorialSection'')
     [Node ''Project'' () [], Node ''TutorialSection'' () [], Node ''TutorialStep'' () []]
   \<and> isMdxType
       ([Node ''Project'' () [], Node ''TutorialSection'' () [], Node ''TutorialStep'' () []] ! 0)
       ''Project''
   \<and> isMdxType
       ([Node ''Project'' () [], Node ''TutorialSection'' () [], Node ''TutorialStep'' () []] ! 2)
       ''TutorialStep''
   \<and> validateChildren
       [Node ''Project'' () [], Node ''TutorialSection'' () [], Node ''TutorialStep'' () []]
     = Inl (Error stepOutsideSectionMessage)"
proof -
  let ?cs = "[Node ''Project'' () [], Node ''TutorialSection'' () [], Node ''TutorialStep'' () []]"
  have 1: "list_ex (\<lambda>child. isMdxType child ''TutorialSection'') ?cs"
    by (simp add: isMdxType_def)
  have 2: "isMdxType (?cs ! 0) ''Project''"
    by (simp add: isMdxType_def)
  have 3: "(0::nat) < 2" "2 < length ?cs" by simp_all
  have 4: "isMdxType (?cs ! 2) ''TutorialStep''"
    by (simp add: isMdxType_def)
  show ?thesis
    using validateChildren_bare_step [OF 1 2 3 4] 1 2 4 by simp
qed

section \<open>The first child is not validated\<close>

text \<open>
  C3. A tutorial without sections and without a \<^verbatim>\<open>Project\<close> block whose first child is a
  paragraph breaks the rule that every child is a \<^verbatim>\<open>TutorialStep\<close>. Yet
  \<^verbatim>\<open>validateChildren\<close> returns without an error, because it drops the first child
  before it checks the others, and the render returns an assembled node sequence, in
  which the paragraph is step 1 and the step is step 2. With the same two children in the
  other order \<^verbatim>\<open>validateChildren\<close> raises the error that every child must be a
  \<^verbatim>\<open>TutorialStep\<close>.
\<close>

theorem Tutorial_first_child_unchecked:
  "validateChildren [Node ''p'' None [], Node ''TutorialStep'' None [fixture_block ''index.js'' ''js'' ''b'']] = Inr ()
   \<and> Tutorial fixture_utils [Node ''p'' None [], Node ''TutorialStep'' None [fixture_block ''index.js'' ''js'' ''b'']] [] =
       (Inr [CloneElement (Node ''p'' None []) [] (Some 1) (Some 0),
             CloneElement (Node ''TutorialStep'' None [fixture_block ''index.js'' ''js'' ''b''])
               [TutorialEditor 0 ''index.js'' ([], ''b'') 1] (Some 2) (Some 1)],
        [[(''index.js'', \<lparr>code = [], language = ''js''\<rparr>)],
         [(''index.js'', \<lparr>code = ''b'', language = ''js''\<rparr>)]])
   \<and> validateChildren [Node ''TutorialStep'' None [fixture_block ''index.js'' ''js'' ''b''], Node ''p'' None []] = Inl (Error childNotStepMessage)"
proof -
  have "validateChildren [Node ''p'' None [], Node ''TutorialStep'' None [fixture_block ''index.js'' ''js'' ''b'']] = Inr ()"
    by (simp add: validateChildren_def validateTutorialSteps_def isMdxType_def)
  moreover have "validateChildren [Node ''TutorialStep'' None [fixture_block ''index.js'' ''js'' ''b''], Node ''p'' None []] = Inl (Error childNotStepMessage)"
    by (simp add: validateChildren_def validateTutorialSteps_def isMdxType_def)
  moreover have "parseProjectStateFromChildren fixture_utils [Node ''p'' None [], Node ''TutorialStep'' None [fixture_block ''index.js'' ''js'' ''b'']] [] =
      (0, [[(''index.js'', \<lparr>code = [], language = ''js''\<rparr>)]])"
    by (simp add: parseProjectStateFromChildren_def findCodeBlocksInTutorialStep_def
        Map_new_def Map_has_def Map_set_def fixture_utils_def fixture_block_def)
  moreover have "gatherSteps fixture_utils [Node ''p'' None [], Node ''TutorialStep'' None [fixture_block ''index.js'' ''js'' ''b'']] 0
      [[(''index.js'', \<lparr>code = [], language = ''js''\<rparr>)]] =
       (Inr ([CloneElement (Node ''p'' None []) [] (Some 1) (Some 0),
              CloneElement (Node ''TutorialStep'' None [fixture_block ''index.js'' ''js'' ''b''])
                [TutorialEditor 0 ''index.js'' ([], ''b'') 1] (Some 2) (Some 1)], 1),
        [[(''index.js'', \<lparr>code = [], language = ''js''\<rparr>)],
         [(''index.js'', \<lparr>code = ''b'', language = ''js''\<rparr>)]])"
    by (simp add: gatherSteps_def gatherSteps_callback_def swapCodeBlocks_def
        swapCodeBlocks_callback_def Map_has_def Map_get_def clone_def Map_new_def Map_set_def
        fixture_utils_def fixture_block_def)
  ultimately show ?thesis
    by (simp add: Tutorial_def useOnMount_def isMdxType_def)
qed

section \<open>Order and ordinals of the steps\<close>

lemma gatherSteps_snoc:
  "gatherSteps u (cs @ [c]) s h =
     (case gatherSteps u cs s h of
        (Inl e, h1) \<Rightarrow> (Inl e, h1)
      | (Inr (steps, st), h1) \<Rightarrow>
          (case swapCodeBlocks u c st h1 of
             (Inl e, h2) \<Rightarrow> (Inl e, h2)
           | (Inr (kids, st'), h2) \<Rightarrow>
               (Inr (steps @ [CloneElement c kids (Some (length cs + 1)) (Some (length kids))],
                     st'), h2)))"
  by (simp add: gatherSteps_def reduce_append gatherSteps_callback_def
      split: prod.splits sum.splits)

text \<open>
  C4. When \<^verbatim>\<open>gatherSteps\<close> returns, it returns as many steps as it was given, and the
  step at position \<open>i\<close> is the step element at position \<open>i\<close> of the input, cloned with
  \<open>stepNumber = i + 1\<close>, with the children \<open>kids\<close> that \<^verbatim>\<open>swapCodeBlocks\<close> returns for
  it in the ProjectState and store left by the steps before it, and with
  \<open>totalSteps = length kids\<close>.
\<close>

theorem gatherSteps_ordinals:
  assumes "gatherSteps u cs initialProjectState h = (Inr (steps, ps), h')"
  shows "length steps = length cs
         \<and> (\<forall>i<length cs. \<exists>sofar st hs kids st' hs'.
               gatherSteps u (take i cs) initialProjectState h = (Inr (sofar, st), hs)
               \<and> swapCodeBlocks u (cs ! i) st hs = (Inr (kids, st'), hs')
               \<and> steps ! i = CloneElement (cs ! i) kids (Some (i + 1)) (Some (length kids)))"
  using assms
proof (induction cs arbitrary: steps ps h' rule: rev_induct)
  case Nil
  then show ?case by (simp add: gatherSteps_def)
next
  case (snoc c cs)
  from snoc.prems obtain steps0 st h1 kids st' where
    run: "gatherSteps u cs initialProjectState h = (Inr (steps0, st), h1)"
    and swap: "swapCodeBlocks u c st h1 = (Inr (kids, st'), h')"
    and steps: "steps = steps0 @ [CloneElement c kids (Some (length cs + 1)) (Some (length kids))]"
    by (auto simp: gatherSteps_snoc split: prod.splits sum.splits)
  from snoc.IH [OF run] have len: "length steps0 = length cs"
    and ih: "\<forall>i<length cs. \<exists>sofar st hs kids st' hs'.
               gatherSteps u (take i cs) initialProjectState h = (Inr (sofar, st), hs)
               \<and> swapCodeBlocks u (cs ! i) st hs = (Inr (kids, st'), hs')
               \<and> steps0 ! i = CloneElement (cs ! i) kids (Some (i + 1)) (Some (length kids))"
    by simp_all
  have "\<exists>sofar st hs kids st' hs'.
               gatherSteps u (take i (cs @ [c])) initialProjectState h = (Inr (sofar, st), hs)
               \<and> swapCodeBlocks u ((cs @ [c]) ! i) st hs = (Inr (kids, st'), hs')
               \<and> steps ! i = CloneElement ((cs @ [c]) ! i) kids (Some (i + 1)) (Some (length kids))"
    if i: "i < length (cs @ [c])" for i
  proof (cases "i < length cs")
    case True
    with ih show ?thesis by (simp add: steps len nth_append)
  next
    case False
    with i have "i = length cs" by simp
    then show ?thesis using run swap by (simp add: steps len nth_append)
  qed
  then show ?case by (simp add: steps len)
qed

text \<open>
  Two steps on a project that has \<^verbatim>\<open>index.js\<close>: the first is one block, the second a
  paragraph and a block. The conclusion is read at the second step.
\<close>

theorem gatherSteps_ordinals_witness:
  "gatherSteps fixture_utils
     [Node ''TutorialStep'' None [fixture_block ''index.js'' ''js'' ''b''],
      Node ''TutorialStep'' None [Node ''p'' None [], fixture_block ''index.js'' ''js'' ''c'']] 0
     [[(''index.js'', \<lparr>code = ''a'', language = ''js''\<rparr>)]] =
     (Inr ([CloneElement (Node ''TutorialStep'' None [fixture_block ''index.js'' ''js'' ''b''])
         [TutorialEditor 0 ''index.js'' (''a'', ''b'') 1] (Some 1) (Some 1),
       CloneElement (Node ''TutorialStep'' None [Node ''p'' None [], fixture_block ''index.js'' ''js'' ''c''])
         [Child (Node ''p'' None []), TutorialEditor 1 ''index.js'' (''b'', ''c'') 2]
         (Some 2) (Some 2)], 2),
      [[(''index.js'', \<lparr>code = ''a'', language = ''js''\<rparr>)], [(''index.js'', \<lparr>code = ''b'', language = ''js''\<rparr>)], [(''index.js'', \<lparr>code = ''c'', language = ''js''\<rparr>)]])
   \<and> length [CloneElement (Node ''TutorialStep'' None [fixture_block ''index.js'' ''js'' ''b''])
         [TutorialEditor 0 ''index.js'' (''a'', ''b'') 1] (Some 1) (Some 1),
       CloneElement (Node ''TutorialStep'' None [Node ''p'' None [], fixture_block ''index.js'' ''js'' ''c''])
         [Child (Node ''p'' None []), TutorialEditor 1 ''index.js'' (''b'', ''c'') 2]
         (Some 2) (Some 2)]
       = length [Node ''TutorialStep'' None [fixture_block ''index.js'' ''js'' ''b''],
      Node ''TutorialStep'' None [Node ''p'' None [], fixture_block ''index.js'' ''js'' ''c'']]
   \<and> (\<exists>sofar st hs kids st' hs'.
          gatherSteps fixture_utils (take 1 [Node ''TutorialStep'' None [fixture_block ''index.js'' ''js'' ''b''],
      Node ''TutorialStep'' None [Node ''p'' None [], fixture_block ''index.js'' ''js'' ''c'']]) 0
             [[(''index.js'', \<lparr>code = ''a'', language = ''js''\<rparr>)]] = (Inr (sofar, st), hs)
          \<and> swapCodeBlocks fixture_utils ([Node ''TutorialStep'' None [fixture_block ''index.js'' ''js'' ''b''],
      Node ''TutorialStep'' None [Node ''p'' None [], fixture_block ''index.js'' ''js'' ''c'']] ! 1) st hs = (Inr (kids, st'), hs')
          \<and> [CloneElement (Node ''TutorialStep'' None [fixture_block ''index.js'' ''js'' ''b''])
         [TutorialEditor 0 ''index.js'' (''a'', ''b'') 1] (Some 1) (Some 1),
       CloneElement (Node ''TutorialStep'' None [Node ''p'' None [], fixture_block ''index.js'' ''js'' ''c''])
         [Child (Node ''p'' None []), TutorialEditor 1 ''index.js'' (''b'', ''c'') 2]
         (Some 2) (Some 2)] ! 1
            = CloneElement ([Node ''TutorialStep'' None [fixture_block ''index.js'' ''js'' ''b''],
      Node ''TutorialStep'' None [Node ''p'' None [], fixture_block ''index.js'' ''js'' ''c'']] ! 1) kids (Some (1 + 1)) (Some (length kids)))"
proof -
  have 1: "gatherSteps fixture_utils
     [Node ''TutorialStep'' None [fixture_block ''index.js'' ''js'' ''b''],
      Node ''TutorialStep'' None [Node ''p'' None [], fixture_block ''index.js'' ''js'' ''c'']] 0
     [[(''index.js'', \<lparr>code = ''a'', language = ''js''\<rparr>)]] =
     (Inr ([CloneElement (Node ''TutorialStep'' None [fixture_block ''index.js'' ''js'' ''b''])
         [TutorialEditor 0 ''index.js'' (''a'', ''b'') 1] (Some 1) (Some 1),
       CloneElement (Node ''TutorialStep'' None [Node ''p'' None [], fixture_block ''index.js'' ''js'' ''c''])
         [Child (Node ''p'' None []), TutorialEditor 1 ''index.js'' (''b'', ''c'') 2]
         (Some 2) (Some 2)], 2),
      [[(''index.js'', \<lparr>code = ''a'', language = ''js''\<rparr>)], [(''index.js'', \<lparr>code = ''b'', language = ''js''\<rparr>)], [(''index.js'', \<lparr>code = ''c'', language = ''js''\<rparr>)]])"
    by (simp add: gatherSections_def gatherSections_memo_def gatherSections_callback_def
        gatherSteps_def gatherSteps_callback_def swapCodeBlocks_def swapCodeBlocks_callback_def
        isMdxType_def Map_has_def Map_get_def clone_def Map_new_def Map_set_def
        fixture_utils_def fixture_block_def)
  have 2: "1 < length [Node ''TutorialStep'' None [fixture_block ''index.js'' ''js'' ''b''],
      Node ''TutorialStep'' None [Node ''p'' None [], fixture_block ''index.js'' ''js'' ''c'']]"
    by simp
  note t = gatherSteps_ordinals [OF 1]
  have 3: "length [CloneElement (Node ''TutorialStep'' None [fixture_block ''index.js'' ''js'' ''b''])
         [TutorialEditor 0 ''index.js'' (''a'', ''b'') 1] (Some 1) (Some 1),
       CloneElement (Node ''TutorialStep'' None [Node ''p'' None [], fixture_block ''index.js'' ''js'' ''c''])
         [Child (Node ''p'' None []), TutorialEditor 1 ''index.js'' (''b'', ''c'') 2]
         (Some 2) (Some 2)]
       = length [Node ''TutorialStep'' None [fixture_block ''index.js'' ''js'' ''b''],
      Node ''TutorialStep'' None [Node ''p'' None [], fixture_block ''index.js'' ''js'' ''c'']]"
    using t by (rule conjunct1)
  have 4: "\<exists>sofar st hs kids st' hs'.
          gatherSteps fixture_utils (take 1 [Node ''TutorialStep'' None [fixture_block ''index.js'' ''js'' ''b''],
      Node ''TutorialStep'' None [Node ''p'' None [], fixture_block ''index.js'' ''js'' ''c'']]) 0
             [[(''index.js'', \<lparr>code = ''a'', language = ''js''\<rparr>)]] = (Inr (sofar, st), hs)
          \<and> swapCodeBlocks fixture_utils ([Node ''TutorialStep'' None [fixture_block ''index.js'' ''js'' ''b''],
      Node ''TutorialStep'' None [Node ''p'' None [], fixture_block ''index.js'' ''js'' ''c'']] ! 1) st hs = (Inr (kids, st'), hs')
          \<and> [CloneElement (Node ''TutorialStep'' None [fixture_block ''index.js'' ''js'' ''b''])
         [TutorialEditor 0 ''index.js'' (''a'', ''b'') 1] (Some 1) (Some 1),
       CloneElement (Node ''TutorialStep'' None [Node ''p'' None [], fixture_block ''index.js'' ''js'' ''c''])
         [Child (Node ''p'' None []), TutorialEditor 1 ''index.js'' (''b'', ''c'') 2]
         (Some 2) (Some 2)] ! 1
            = CloneElement ([Node ''TutorialStep'' None [fixture_block ''index.js'' ''js'' ''b''],
      Node ''TutorialStep'' None [Node ''p'' None [], fixture_block ''index.js'' ''js'' ''c'']] ! 1) kids (Some (1 + 1)) (Some (length kids))"
    using t [THEN conjunct2, rule_format, OF 2] .
  show ?thesis
    by (rule conjI [OF 1 conjI [OF 3 4]])
qed

section \<open>Children of a sectioned tutorial that are not sections\<close>

lemma gatherSections_memo_snoc:
  "gatherSections_memo u (cs @ [c]) s h =
     (case gatherSections_memo u cs s h of
        (Inl e, h1) \<Rightarrow> (Inl e, h1)
      | (Inr (els, st), h1) \<Rightarrow>
          (if isMdxType c ''TutorialSection''
           then (case gatherSteps u (children c) st h1 of
                   (Inl e, h2) \<Rightarrow> (Inl e, h2)
                 | (Inr (steps, st'), h2) \<Rightarrow>
                     (Inr (els @ [CloneElement c steps None None], st'), h2))
           else (Inr (els @ [Child c], st), h1)))"
  by (simp add: gatherSections_memo_def reduce_append gatherSections_callback_def
      split: prod.splits sum.splits)

lemma gatherSections_memo_length:
  "gatherSections_memo u cs s h = (Inr (els, ps), h') \<Longrightarrow> length els = length cs"
proof (induction cs arbitrary: els ps h' rule: rev_induct)
  case Nil
  then show ?case by (simp add: gatherSections_memo_def)
next
  case (snoc c cs)
  then show ?case
    by (auto simp: gatherSections_memo_snoc split: prod.splits sum.splits if_splits)
qed

lemma gatherSections_memo_prefix:
  "gatherSections_memo u (cs @ ds) s h = (Inr (els, ps), h') \<Longrightarrow>
   \<exists>sofar st hs. gatherSections_memo u cs s h = (Inr (sofar, st), hs) \<and> sofar = take (length cs) els"
proof (induction ds arbitrary: els ps h' rule: rev_induct)
  case Nil
  then show ?case by (auto dest: gatherSections_memo_length)
next
  case (snoc d ds)
  from snoc.prems obtain els0 st0 h0 where
    run: "gatherSections_memo u (cs @ ds) s h = (Inr (els0, st0), h0)"
    and els: "\<exists>x. els = els0 @ [x]"
    unfolding append_assoc [symmetric] gatherSections_memo_snoc
    by (auto split: prod.splits sum.splits if_splits)
  from snoc.IH [OF run] obtain sofar st hs where
    a: "gatherSections_memo u cs s h = (Inr (sofar, st), hs)" and b: "sofar = take (length cs) els0"
    by blast
  have "length els0 = length (cs @ ds)" using run by (rule gatherSections_memo_length)
  with els b have "sofar = take (length cs) els" by auto
  with a show ?case by blast
qed

lemma gatherSections_memo_sections_only:
  "gatherSections_memo u cs s h = (Inr (els, ps), h') \<Longrightarrow>
   \<exists>els'. gatherSections_memo u (filter (\<lambda>c. isMdxType c ''TutorialSection'') cs) s h
           = (Inr (els', ps), h')"
proof (induction cs arbitrary: els ps h' rule: rev_induct)
  case Nil
  then show ?case by (simp add: gatherSections_memo_def)
next
  case (snoc c cs)
  from snoc.prems obtain els0 st0 h0 where
    run: "gatherSections_memo u cs s h = (Inr (els0, st0), h0)"
    by (auto simp: gatherSections_memo_snoc split: prod.splits sum.splits)
  from snoc.IH [OF run] obtain els1 where
    f: "gatherSections_memo u (filter (\<lambda>c. isMdxType c ''TutorialSection'') cs) s h
           = (Inr (els1, st0), h0)" by blast
  show ?case
    using snoc.prems run f
    by (auto simp: gatherSections_memo_snoc split: prod.splits sum.splits if_splits)
qed

text \<open>
  C10. When \<^verbatim>\<open>gatherSections\<close> returns, it returns one element for each child. A child
  at position \<open>i\<close> that is not a \<^verbatim>\<open>TutorialSection\<close> is itself the element at position
  \<open>i\<close>, and the loop's memo after it has the current ProjectState and the store that
  it had before it. The current ProjectState and the store at the end are those that the
  \<^verbatim>\<open>TutorialSection\<close> children alone produce.
\<close>

theorem gatherSections_passes_others_through:
  assumes "gatherSections u cs initialProjectState h = (Inr elements, h')"
  shows "length elements = length cs
         \<and> (\<forall>i<length cs. \<not> isMdxType (cs ! i) ''TutorialSection'' \<longrightarrow>
               elements ! i = Child (cs ! i)
               \<and> (\<exists>sofar st hs.
                     gatherSections_memo u (take i cs) initialProjectState h
                       = (Inr (sofar, st), hs)
                     \<and> gatherSections_memo u (take (Suc i) cs) initialProjectState h
                       = (Inr (sofar @ [Child (cs ! i)], st), hs)))
         \<and> (\<exists>ps els'.
               gatherSections_memo u cs initialProjectState h = (Inr (elements, ps), h')
               \<and> gatherSections_memo u (filter (\<lambda>c. isMdxType c ''TutorialSection'') cs)
                   initialProjectState h = (Inr (els', ps), h'))"
proof -
  from assms obtain ps where
    memo: "gatherSections_memo u cs initialProjectState h = (Inr (elements, ps), h')"
    by (auto simp: gatherSections_def split: prod.splits sum.splits)
  have len: "length elements = length cs" using memo by (rule gatherSections_memo_length)
  have "elements ! i = Child (cs ! i)
        \<and> (\<exists>sofar st hs.
              gatherSections_memo u (take i cs) initialProjectState h = (Inr (sofar, st), hs)
              \<and> gatherSections_memo u (take (Suc i) cs) initialProjectState h
                = (Inr (sofar @ [Child (cs ! i)], st), hs))"
    if i: "i < length cs" and other: "\<not> isMdxType (cs ! i) ''TutorialSection''" for i
  proof -
    have split: "cs = take (Suc i) cs @ drop (Suc i) cs" by simp
    have suc: "take (Suc i) cs = take i cs @ [cs ! i]" using i by (rule take_Suc_conv_app_nth)
    have "gatherSections_memo u (take (Suc i) cs @ drop (Suc i) cs) initialProjectState h
        = (Inr (elements, ps), h')"
      using memo by simp
    from gatherSections_memo_prefix [OF this] obtain sofar1 st1 hs1 where
      a: "gatherSections_memo u (take (Suc i) cs) initialProjectState h = (Inr (sofar1, st1), hs1)"
      and b: "sofar1 = take (length (take (Suc i) cs)) elements"
      by blast
    from a obtain sofar st hs where
      c: "gatherSections_memo u (take i cs) initialProjectState h = (Inr (sofar, st), hs)"
      and d: "sofar1 = sofar @ [Child (cs ! i)]" "st1 = st" "hs1 = hs"
      using other unfolding suc gatherSections_memo_snoc
      by (auto split: prod.splits sum.splits)
    have "length sofar = i"
      using gatherSections_memo_length [OF c] i by simp
    then have "elements ! i = Child (cs ! i)"
      using b d i len by (metis Suc_leI length_take lessI min.absorb2 nth_append_length nth_take)
    with a c d show ?thesis by simp
  qed
  moreover from gatherSections_memo_sections_only [OF memo] memo
  have "\<exists>ps els'.
          gatherSections_memo u cs initialProjectState h = (Inr (elements, ps), h')
          \<and> gatherSections_memo u (filter (\<lambda>c. isMdxType c ''TutorialSection'') cs)
              initialProjectState h = (Inr (els', ps), h')"
    by blast
  ultimately show ?thesis using len by blast
qed

text \<open>
  A section, a paragraph and a second section, on a project that has \<^verbatim>\<open>index.js\<close>. The
  conclusion is read at the paragraph.
\<close>

theorem gatherSections_passes_others_through_witness:
  "gatherSections fixture_utils
     [Node ''TutorialSection'' None [Node ''TutorialStep'' None [fixture_block ''index.js'' ''js'' ''b'']],
      Node ''p'' None [],
      Node ''TutorialSection'' None [Node ''TutorialStep'' None [fixture_block ''index.js'' ''js'' ''c'']]] 0
     [[(''index.js'', \<lparr>code = ''a'', language = ''js''\<rparr>)]] =
     (Inr [CloneElement (Node ''TutorialSection'' None [Node ''TutorialStep'' None [fixture_block ''index.js'' ''js'' ''b'']])
         [CloneElement (Node ''TutorialStep'' None [fixture_block ''index.js'' ''js'' ''b''])
            [TutorialEditor 0 ''index.js'' (''a'', ''b'') 1] (Some 1) (Some 1)] None None,
       Child (Node ''p'' None []),
       CloneElement (Node ''TutorialSection'' None [Node ''TutorialStep'' None [fixture_block ''index.js'' ''js'' ''c'']])
         [CloneElement (Node ''TutorialStep'' None [fixture_block ''index.js'' ''js'' ''c''])
            [TutorialEditor 0 ''index.js'' (''b'', ''c'') 2] (Some 1) (Some 1)] None None],
      [[(''index.js'', \<lparr>code = ''a'', language = ''js''\<rparr>)], [(''index.js'', \<lparr>code = ''b'', language = ''js''\<rparr>)], [(''index.js'', \<lparr>code = ''c'', language = ''js''\<rparr>)]])
   \<and> \<not> isMdxType ([Node ''TutorialSection'' None [Node ''TutorialStep'' None [fixture_block ''index.js'' ''js'' ''b'']],
      Node ''p'' None [],
      Node ''TutorialSection'' None [Node ''TutorialStep'' None [fixture_block ''index.js'' ''js'' ''c'']]] ! 1) ''TutorialSection''
   \<and> length [CloneElement (Node ''TutorialSection'' None [Node ''TutorialStep'' None [fixture_block ''index.js'' ''js'' ''b'']])
         [CloneElement (Node ''TutorialStep'' None [fixture_block ''index.js'' ''js'' ''b''])
            [TutorialEditor 0 ''index.js'' (''a'', ''b'') 1] (Some 1) (Some 1)] None None,
       Child (Node ''p'' None []),
       CloneElement (Node ''TutorialSection'' None [Node ''TutorialStep'' None [fixture_block ''index.js'' ''js'' ''c'']])
         [CloneElement (Node ''TutorialStep'' None [fixture_block ''index.js'' ''js'' ''c''])
            [TutorialEditor 0 ''index.js'' (''b'', ''c'') 2] (Some 1) (Some 1)] None None]
       = length [Node ''TutorialSection'' None [Node ''TutorialStep'' None [fixture_block ''index.js'' ''js'' ''b'']],
      Node ''p'' None [],
      Node ''TutorialSection'' None [Node ''TutorialStep'' None [fixture_block ''index.js'' ''js'' ''c'']]]
   \<and> ([CloneElement (Node ''TutorialSection'' None [Node ''TutorialStep'' None [fixture_block ''index.js'' ''js'' ''b'']])
         [CloneElement (Node ''TutorialStep'' None [fixture_block ''index.js'' ''js'' ''b''])
            [TutorialEditor 0 ''index.js'' (''a'', ''b'') 1] (Some 1) (Some 1)] None None,
       Child (Node ''p'' None []),
       CloneElement (Node ''TutorialSection'' None [Node ''TutorialStep'' None [fixture_block ''index.js'' ''js'' ''c'']])
         [CloneElement (Node ''TutorialStep'' None [fixture_block ''index.js'' ''js'' ''c''])
            [TutorialEditor 0 ''index.js'' (''b'', ''c'') 2] (Some 1) (Some 1)] None None] ! 1
       = Child ([Node ''TutorialSection'' None [Node ''TutorialStep'' None [fixture_block ''index.js'' ''js'' ''b'']],
      Node ''p'' None [],
      Node ''TutorialSection'' None [Node ''TutorialStep'' None [fixture_block ''index.js'' ''js'' ''c'']]] ! 1)
     \<and> (\<exists>sofar st hs.
           gatherSections_memo fixture_utils (take 1 [Node ''TutorialSection'' None [Node ''TutorialStep'' None [fixture_block ''index.js'' ''js'' ''b'']],
      Node ''p'' None [],
      Node ''TutorialSection'' None [Node ''TutorialStep'' None [fixture_block ''index.js'' ''js'' ''c'']]]) 0
              [[(''index.js'', \<lparr>code = ''a'', language = ''js''\<rparr>)]] = (Inr (sofar, st), hs)
           \<and> gatherSections_memo fixture_utils (take (Suc 1) [Node ''TutorialSection'' None [Node ''TutorialStep'' None [fixture_block ''index.js'' ''js'' ''b'']],
      Node ''p'' None [],
      Node ''TutorialSection'' None [Node ''TutorialStep'' None [fixture_block ''index.js'' ''js'' ''c'']]]) 0
              [[(''index.js'', \<lparr>code = ''a'', language = ''js''\<rparr>)]]
             = (Inr (sofar @ [Child ([Node ''TutorialSection'' None [Node ''TutorialStep'' None [fixture_block ''index.js'' ''js'' ''b'']],
      Node ''p'' None [],
      Node ''TutorialSection'' None [Node ''TutorialStep'' None [fixture_block ''index.js'' ''js'' ''c'']]] ! 1)], st), hs)))
   \<and> (\<exists>ps els'.
           gatherSections_memo fixture_utils
             [Node ''TutorialSection'' None [Node ''TutorialStep'' None [fixture_block ''index.js'' ''js'' ''b'']],
      Node ''p'' None [],
      Node ''TutorialSection'' None [Node ''TutorialStep'' None [fixture_block ''index.js'' ''js'' ''c'']]] 0
             [[(''index.js'', \<lparr>code = ''a'', language = ''js''\<rparr>)]] =
             (Inr ([CloneElement (Node ''TutorialSection'' None [Node ''TutorialStep'' None [fixture_block ''index.js'' ''js'' ''b'']])
         [CloneElement (Node ''TutorialStep'' None [fixture_block ''index.js'' ''js'' ''b''])
            [TutorialEditor 0 ''index.js'' (''a'', ''b'') 1] (Some 1) (Some 1)] None None,
       Child (Node ''p'' None []),
       CloneElement (Node ''TutorialSection'' None [Node ''TutorialStep'' None [fixture_block ''index.js'' ''js'' ''c'']])
         [CloneElement (Node ''TutorialStep'' None [fixture_block ''index.js'' ''js'' ''c''])
            [TutorialEditor 0 ''index.js'' (''b'', ''c'') 2] (Some 1) (Some 1)] None None], ps),
              [[(''index.js'', \<lparr>code = ''a'', language = ''js''\<rparr>)], [(''index.js'', \<lparr>code = ''b'', language = ''js''\<rparr>)], [(''index.js'', \<lparr>code = ''c'', language = ''js''\<rparr>)]])
           \<and> gatherSections_memo fixture_utils
               (filter (\<lambda>c. isMdxType c ''TutorialSection'')
                  [Node ''TutorialSection'' None [Node ''TutorialStep'' None [fixture_block ''index.js'' ''js'' ''b'']],
      Node ''p'' None [],
      Node ''TutorialSection'' None [Node ''TutorialStep'' None [fixture_block ''index.js'' ''js'' ''c'']]]) 0
               [[(''index.js'', \<lparr>code = ''a'', language = ''js''\<rparr>)]] =
             (Inr (els', ps),
              [[(''index.js'', \<lparr>code = ''a'', language = ''js''\<rparr>)], [(''index.js'', \<lparr>code = ''b'', language = ''js''\<rparr>)], [(''index.js'', \<lparr>code = ''c'', language = ''js''\<rparr>)]]))"
proof -
  have 1: "gatherSections fixture_utils
     [Node ''TutorialSection'' None [Node ''TutorialStep'' None [fixture_block ''index.js'' ''js'' ''b'']],
      Node ''p'' None [],
      Node ''TutorialSection'' None [Node ''TutorialStep'' None [fixture_block ''index.js'' ''js'' ''c'']]] 0
     [[(''index.js'', \<lparr>code = ''a'', language = ''js''\<rparr>)]] =
     (Inr [CloneElement (Node ''TutorialSection'' None [Node ''TutorialStep'' None [fixture_block ''index.js'' ''js'' ''b'']])
         [CloneElement (Node ''TutorialStep'' None [fixture_block ''index.js'' ''js'' ''b''])
            [TutorialEditor 0 ''index.js'' (''a'', ''b'') 1] (Some 1) (Some 1)] None None,
       Child (Node ''p'' None []),
       CloneElement (Node ''TutorialSection'' None [Node ''TutorialStep'' None [fixture_block ''index.js'' ''js'' ''c'']])
         [CloneElement (Node ''TutorialStep'' None [fixture_block ''index.js'' ''js'' ''c''])
            [TutorialEditor 0 ''index.js'' (''b'', ''c'') 2] (Some 1) (Some 1)] None None],
      [[(''index.js'', \<lparr>code = ''a'', language = ''js''\<rparr>)], [(''index.js'', \<lparr>code = ''b'', language = ''js''\<rparr>)], [(''index.js'', \<lparr>code = ''c'', language = ''js''\<rparr>)]])"
    by (simp add: gatherSections_def gatherSections_memo_def gatherSections_callback_def
        gatherSteps_def gatherSteps_callback_def swapCodeBlocks_def swapCodeBlocks_callback_def
        isMdxType_def Map_has_def Map_get_def clone_def Map_new_def Map_set_def
        fixture_utils_def fixture_block_def)
  have 2: "1 < length [Node ''TutorialSection'' None [Node ''TutorialStep'' None [fixture_block ''index.js'' ''js'' ''b'']],
      Node ''p'' None [],
      Node ''TutorialSection'' None [Node ''TutorialStep'' None [fixture_block ''index.js'' ''js'' ''c'']]]"
    by simp
  have 3: "\<not> isMdxType ([Node ''TutorialSection'' None [Node ''TutorialStep'' None [fixture_block ''index.js'' ''js'' ''b'']],
      Node ''p'' None [],
      Node ''TutorialSection'' None [Node ''TutorialStep'' None [fixture_block ''index.js'' ''js'' ''c'']]] ! 1) ''TutorialSection''"
    by (simp add: isMdxType_def)
  note t = gatherSections_passes_others_through [OF 1]
  have 4: "length [CloneElement (Node ''TutorialSection'' None [Node ''TutorialStep'' None [fixture_block ''index.js'' ''js'' ''b'']])
         [CloneElement (Node ''TutorialStep'' None [fixture_block ''index.js'' ''js'' ''b''])
            [TutorialEditor 0 ''index.js'' (''a'', ''b'') 1] (Some 1) (Some 1)] None None,
       Child (Node ''p'' None []),
       CloneElement (Node ''TutorialSection'' None [Node ''TutorialStep'' None [fixture_block ''index.js'' ''js'' ''c'']])
         [CloneElement (Node ''TutorialStep'' None [fixture_block ''index.js'' ''js'' ''c''])
            [TutorialEditor 0 ''index.js'' (''b'', ''c'') 2] (Some 1) (Some 1)] None None]
       = length [Node ''TutorialSection'' None [Node ''TutorialStep'' None [fixture_block ''index.js'' ''js'' ''b'']],
      Node ''p'' None [],
      Node ''TutorialSection'' None [Node ''TutorialStep'' None [fixture_block ''index.js'' ''js'' ''c'']]]"
    using t by (rule conjunct1)
  have 5: "[CloneElement (Node ''TutorialSection'' None [Node ''TutorialStep'' None [fixture_block ''index.js'' ''js'' ''b'']])
         [CloneElement (Node ''TutorialStep'' None [fixture_block ''index.js'' ''js'' ''b''])
            [TutorialEditor 0 ''index.js'' (''a'', ''b'') 1] (Some 1) (Some 1)] None None,
       Child (Node ''p'' None []),
       CloneElement (Node ''TutorialSection'' None [Node ''TutorialStep'' None [fixture_block ''index.js'' ''js'' ''c'']])
         [CloneElement (Node ''TutorialStep'' None [fixture_block ''index.js'' ''js'' ''c''])
            [TutorialEditor 0 ''index.js'' (''b'', ''c'') 2] (Some 1) (Some 1)] None None] ! 1
       = Child ([Node ''TutorialSection'' None [Node ''TutorialStep'' None [fixture_block ''index.js'' ''js'' ''b'']],
      Node ''p'' None [],
      Node ''TutorialSection'' None [Node ''TutorialStep'' None [fixture_block ''index.js'' ''js'' ''c'']]] ! 1)
     \<and> (\<exists>sofar st hs.
           gatherSections_memo fixture_utils (take 1 [Node ''TutorialSection'' None [Node ''TutorialStep'' None [fixture_block ''index.js'' ''js'' ''b'']],
      Node ''p'' None [],
      Node ''TutorialSection'' None [Node ''TutorialStep'' None [fixture_block ''index.js'' ''js'' ''c'']]]) 0
              [[(''index.js'', \<lparr>code = ''a'', language = ''js''\<rparr>)]] = (Inr (sofar, st), hs)
           \<and> gatherSections_memo fixture_utils (take (Suc 1) [Node ''TutorialSection'' None [Node ''TutorialStep'' None [fixture_block ''index.js'' ''js'' ''b'']],
      Node ''p'' None [],
      Node ''TutorialSection'' None [Node ''TutorialStep'' None [fixture_block ''index.js'' ''js'' ''c'']]]) 0
              [[(''index.js'', \<lparr>code = ''a'', language = ''js''\<rparr>)]]
             = (Inr (sofar @ [Child ([Node ''TutorialSection'' None [Node ''TutorialStep'' None [fixture_block ''index.js'' ''js'' ''b'']],
      Node ''p'' None [],
      Node ''TutorialSection'' None [Node ''TutorialStep'' None [fixture_block ''index.js'' ''js'' ''c'']]] ! 1)], st), hs))"
    using t [THEN conjunct2, THEN conjunct1, rule_format, OF 2 3] .
  have 6: "\<exists>ps els'.
           gatherSections_memo fixture_utils
             [Node ''TutorialSection'' None [Node ''TutorialStep'' None [fixture_block ''index.js'' ''js'' ''b'']],
      Node ''p'' None [],
      Node ''TutorialSection'' None [Node ''TutorialStep'' None [fixture_block ''index.js'' ''js'' ''c'']]] 0
             [[(''index.js'', \<lparr>code = ''a'', language = ''js''\<rparr>)]] =
             (Inr ([CloneElement (Node ''TutorialSection'' None [Node ''TutorialStep'' None [fixture_block ''index.js'' ''js'' ''b'']])
         [CloneElement (Node ''TutorialStep'' None [fixture_block ''index.js'' ''js'' ''b''])
            [TutorialEditor 0 ''index.js'' (''a'', ''b'') 1] (Some 1) (Some 1)] None None,
       Child (Node ''p'' None []),
       CloneElement (Node ''TutorialSection'' None [Node ''TutorialStep'' None [fixture_block ''index.js'' ''js'' ''c'']])
         [CloneElement (Node ''TutorialStep'' None [fixture_block ''index.js'' ''js'' ''c''])
            [TutorialEditor 0 ''index.js'' (''b'', ''c'') 2] (Some 1) (Some 1)] None None], ps),
              [[(''index.js'', \<lparr>code = ''a'', language = ''js''\<rparr>)], [(''index.js'', \<lparr>code = ''b'', language = ''js''\<rparr>)], [(''index.js'', \<lparr>code = ''c'', language = ''js''\<rparr>)]])
           \<and> gatherSections_memo fixture_utils
               (filter (\<lambda>c. isMdxType c ''TutorialSection'')
                  [Node ''TutorialSection'' None [Node ''TutorialStep'' None [fixture_block ''index.js'' ''js'' ''b'']],
      Node ''p'' None [],
      Node ''TutorialSection'' None [Node ''TutorialStep'' None [fixture_block ''index.js'' ''js'' ''c'']]]) 0
               [[(''index.js'', \<lparr>code = ''a'', language = ''js''\<rparr>)]] =
             (Inr (els', ps),
              [[(''index.js'', \<lparr>code = ''a'', language = ''js''\<rparr>)], [(''index.js'', \<lparr>code = ''b'', language = ''js''\<rparr>)], [(''index.js'', \<lparr>code = ''c'', language = ''js''\<rparr>)]])"
    using t [THEN conjunct2, THEN conjunct2] .
  show ?thesis
    by (rule conjI [OF 1 conjI [OF 3 conjI [OF 4 conjI [OF 5 6]]]])
qed

section \<open>Building the initial project state\<close>

lemma update_absent: "k \<notin> fst ` set al \<Longrightarrow> AList.update k v al = al @ [(k, v)]"
  by (induction al) auto

lemma foldl_Map_set:
  "foldl (\<lambda>(m, h) c. if Map_has h m (k c) then (m, h) else Map_set m (k c) (v c) h)
     (length h0, h0 @ [es]) bs =
   (length h0,
    h0 @ [foldl (\<lambda>es c. if map_of es (k c) \<noteq> None then es else AList.update (k c) (v c) es) es bs])"
  by (induction bs arbitrary: es) (simp_all add: Map_has_def Map_set_def)

lemma foldl_firstWins:
  "foldl (\<lambda>es c. if map_of es (k c) \<noteq> None then es else AList.update (k c) (v c) es) es0 bs =
   es0 @ filter (\<lambda>e. fst e \<notin> fst ` set es0) (firstWins (map (\<lambda>c. (k c, v c)) bs))"
proof (induction bs arbitrary: es0)
  case Nil
  then show ?case by simp
next
  case (Cons b bs)
  let ?F = "\<lambda>es c. if map_of es (k c) \<noteq> None then es else AList.update (k c) (v c) es"
  let ?rest = "firstWins (map (\<lambda>c. (k c, v c)) bs)"
  have unfold: "firstWins (map (\<lambda>c. (k c, v c)) (b # bs)) =
      (k b, v b) # filter (\<lambda>e. fst e \<noteq> k b) ?rest"
    by simp
  show ?case
  proof (cases "k b \<in> fst ` set es0")
    case True
    then have "?F es0 b = es0" by (simp add: map_of_eq_None_iff)
    then have "foldl ?F es0 (b # bs) = es0 @ filter (\<lambda>e. fst e \<notin> fst ` set es0) ?rest"
      using Cons.IH [of es0] by simp
    moreover have "filter (\<lambda>e. fst e \<notin> fst ` set es0) (filter (\<lambda>e. fst e \<noteq> k b) ?rest) =
        filter (\<lambda>e. fst e \<notin> fst ` set es0) ?rest"
      unfolding filter_filter using True by (intro filter_cong refl) metis
    ultimately show ?thesis
      unfolding unfold using True by simp
  next
    case False
    then have "?F es0 b = es0 @ [(k b, v b)]"
      by (simp add: map_of_eq_None_iff update_absent)
    then have "foldl ?F es0 (b # bs) =
        (es0 @ [(k b, v b)]) @ filter (\<lambda>e. fst e \<notin> fst ` set (es0 @ [(k b, v b)])) ?rest"
      using Cons.IH [of "es0 @ [(k b, v b)]"] by simp
    moreover have "filter (\<lambda>e. fst e \<notin> fst ` set (es0 @ [(k b, v b)])) ?rest =
        filter (\<lambda>e. fst e \<notin> fst ` set es0) (filter (\<lambda>e. fst e \<noteq> k b) ?rest)"
      unfolding filter_filter by (intro filter_cong refl) auto
    ultimately show ?thesis
      unfolding unfold using False by simp
  qed
qed

lemma map_of_filter_others:
  "k \<noteq> k' \<Longrightarrow> map_of (filter (\<lambda>e. fst e \<noteq> k') es) k = map_of es k"
  by (induction es) auto

lemma map_of_firstWins: "map_of (firstWins es) = map_of es"
proof (induction es)
  case Nil
  then show ?case by simp
next
  case (Cons e es)
  show ?case
  proof
    fix k
    show "map_of (firstWins (e # es)) k = map_of (e # es) k"
      using Cons.IH by (cases e) (simp add: map_of_filter_others)
  qed
qed

lemma distinct_firstWins: "distinct (map fst (firstWins es))"
  by (induction es) (auto simp: distinct_map_filter)

text \<open>
  C6. \<^verbatim>\<open>parseProjectStateFromConfig\<close> allocates one Map and leaves every other Map as it
  was. The entries of the new Map are those of the config's children that are code blocks
  and not shell commands, each as file name and \<^verbatim>\<open>{code, language}\<close>, where the first
  occurrence of a file name wins and later ones are ignored; looking a file name up in it
  gives the first pair with that file name.
\<close>

theorem parseProjectStateFromConfig_first_wins:
  "parseProjectStateFromConfig u configElement h =
     (length h,
      h @ [firstWins
             (map (\<lambda>child. (fileName (parseCodeBlockProps u child),
                            \<lparr>code = code (parseCodeBlockProps u child),
                             language = language (parseCodeBlockProps u child)\<rparr>))
                (filter (\<lambda>child. isCodeBlock u child \<and> \<not> isShellCommand u child)
                   (children configElement)))])
   \<and> Map_get (snd (parseProjectStateFromConfig u configElement h))
        (fst (parseProjectStateFromConfig u configElement h)) f =
      map_of
        (map (\<lambda>child. (fileName (parseCodeBlockProps u child),
                       \<lparr>code = code (parseCodeBlockProps u child),
                        language = language (parseCodeBlockProps u child)\<rparr>))
           (filter (\<lambda>child. isCodeBlock u child \<and> \<not> isShellCommand u child)
              (children configElement))) f"
proof -
  let ?k = "\<lambda>child. fileName (parseCodeBlockProps u child)"
  let ?v = "\<lambda>child. \<lparr>code = code (parseCodeBlockProps u child),
                       language = language (parseCodeBlockProps u child)\<rparr>"
  let ?bs = "filter (\<lambda>child. isCodeBlock u child \<and> \<not> isShellCommand u child)
                   (children configElement)"
  have "parseProjectStateFromConfig u configElement h =
      foldl (\<lambda>(m, h) c. if Map_has h m (?k c) then (m, h) else Map_set m (?k c) (?v c) h)
        (length h, h @ [[]]) ?bs"
    by (simp add: parseProjectStateFromConfig_def Map_new_def Let_def)
  also have "\<dots> = (length h, h @ [firstWins (map (\<lambda>c. (?k c, ?v c)) ?bs)])"
    by (simp only: foldl_Map_set foldl_firstWins) simp
  finally have eq: "parseProjectStateFromConfig u configElement h =
      (length h, h @ [firstWins (map (\<lambda>c. (?k c, ?v c)) ?bs)])" .
  then show ?thesis by (simp add: Map_get_def map_of_firstWins)
qed

text \<open>
  A config with a block for \<^verbatim>\<open>index.js\<close>, a paragraph, a shell command, a block for
  \<^verbatim>\<open>app.js\<close> and a second block for \<^verbatim>\<open>index.js\<close>.
\<close>

theorem parseProjectStateFromConfig_first_wins_witness:
  "parseProjectStateFromConfig fixture_utils
     (Node ''Project'' None
        [fixture_block ''index.js'' ''js'' ''a'', Node ''p'' None [],
         fixture_block ''run'' ''shell'' ''npm start'',
         fixture_block ''app.js'' ''js'' ''x'',
         fixture_block ''index.js'' ''jsx'' ''z'']) [] =
     (0, [[(''index.js'', \<lparr>code = ''a'', language = ''js''\<rparr>),
           (''app.js'', \<lparr>code = ''x'', language = ''js''\<rparr>)]])"
  using parseProjectStateFromConfig_first_wins [of fixture_utils
     "(Node ''Project'' None
        [fixture_block ''index.js'' ''js'' ''a'', Node ''p'' None [],
         fixture_block ''run'' ''shell'' ''npm start'',
         fixture_block ''app.js'' ''js'' ''x'',
         fixture_block ''index.js'' ''jsx'' ''z''])" "[]"]
  by (simp add: fixture_utils_def fixture_block_def)

text \<open>
  C7. \<^verbatim>\<open>parseProjectStateFromChildren\<close> allocates one Map and leaves every other Map as
  it was. It scans the children in document order: of a \<^verbatim>\<open>TutorialStep\<close> its children
  that are code blocks and not shell commands, of a \<^verbatim>\<open>TutorialSection\<close> those of each of
  its children in turn, of any other child nothing. The entries of the new Map are the
  file names of these blocks with the empty code and the language of the block, where the
  first occurrence of a file name wins; looking a file name up gives the first pair with
  that file name.
\<close>

theorem parseProjectStateFromChildren_first_wins:
  "parseProjectStateFromChildren u cs h =
     (length h,
      h @ [firstWins
             (map (\<lambda>codeBlock. (fileName (parseCodeBlockProps u codeBlock),
                                \<lparr>code = [], language = language (parseCodeBlockProps u codeBlock)\<rparr>))
                (concat (map
                   (\<lambda>child.
                      if mdxType child = ''TutorialStep''
                      then filter (\<lambda>c. isCodeBlock u c \<and> \<not> isShellCommand u c) (children child)
                      else if mdxType child = ''TutorialSection''
                      then concat (map
                             (\<lambda>step. filter (\<lambda>c. isCodeBlock u c \<and> \<not> isShellCommand u c)
                                        (children step))
                             (children child))
                      else [])
                   cs)))])
   \<and> Map_get (snd (parseProjectStateFromChildren u cs h))
        (fst (parseProjectStateFromChildren u cs h)) f =
      map_of
        (map (\<lambda>codeBlock. (fileName (parseCodeBlockProps u codeBlock),
                           \<lparr>code = [], language = language (parseCodeBlockProps u codeBlock)\<rparr>))
           (concat (map
              (\<lambda>child.
                 if mdxType child = ''TutorialStep''
                 then filter (\<lambda>c. isCodeBlock u c \<and> \<not> isShellCommand u c) (children child)
                 else if mdxType child = ''TutorialSection''
                 then concat (map
                        (\<lambda>step. filter (\<lambda>c. isCodeBlock u c \<and> \<not> isShellCommand u c)
                                   (children step))
                        (children child))
                 else [])
              cs))) f"
proof -
  let ?k = "\<lambda>codeBlock. fileName (parseCodeBlockProps u codeBlock)"
  let ?v = "\<lambda>codeBlock. \<lparr>code = [], language = language (parseCodeBlockProps u codeBlock)\<rparr>"
  let ?bs = "concat (map
              (\<lambda>child.
                 if mdxType child = ''TutorialStep''
                 then filter (\<lambda>c. isCodeBlock u c \<and> \<not> isShellCommand u c) (children child)
                 else if mdxType child = ''TutorialSection''
                 then concat (map
                        (\<lambda>step. filter (\<lambda>c. isCodeBlock u c \<and> \<not> isShellCommand u c)
                                   (children step))
                        (children child))
                 else [])
              cs)"
  have scan: "(\<lambda>child.
             if mdxType child = ''TutorialStep'' then findCodeBlocksInTutorialStep u child
             else if mdxType child = ''TutorialSection''
             then findCodeBlocksInTutorialSection u child
             else []) =
     (\<lambda>child.
                 if mdxType child = ''TutorialStep''
                 then filter (\<lambda>c. isCodeBlock u c \<and> \<not> isShellCommand u c) (children child)
                 else if mdxType child = ''TutorialSection''
                 then concat (map
                        (\<lambda>step. filter (\<lambda>c. isCodeBlock u c \<and> \<not> isShellCommand u c)
                                   (children step))
                        (children child))
                 else [])"
    by (intro ext) (simp add: findCodeBlocksInTutorialStep_def [abs_def] findCodeBlocksInTutorialSection_def)
  have "parseProjectStateFromChildren u cs h =
      foldl (\<lambda>(m, h) c. if Map_has h m (?k c) then (m, h) else Map_set m (?k c) (?v c) h)
        (length h, h @ [[]]) ?bs"
    unfolding parseProjectStateFromChildren_def scan by (simp add: Map_new_def Let_def)
  also have "\<dots> = (length h, h @ [firstWins (map (\<lambda>c. (?k c, ?v c)) ?bs)])"
    by (simp only: foldl_Map_set foldl_firstWins) simp
  finally have eq: "parseProjectStateFromChildren u cs h =
      (length h, h @ [firstWins (map (\<lambda>c. (?k c, ?v c)) ?bs)])" .
  then show ?thesis by (simp add: Map_get_def map_of_firstWins)
qed

text \<open>
  A step with a block for \<^verbatim>\<open>index.js\<close>, a paragraph that holds a block, and a section
  whose step has a shell command, a block for \<^verbatim>\<open>app.js\<close> and a second block for
  \<^verbatim>\<open>index.js\<close>.
\<close>

theorem parseProjectStateFromChildren_first_wins_witness:
  "parseProjectStateFromChildren fixture_utils
     [Node ''TutorialStep'' None [fixture_block ''index.js'' ''js'' ''a'', Node ''p'' None []],
      Node ''p'' None [fixture_block ''no.js'' ''js'' ''a''],
      Node ''TutorialSection'' None
        [Node ''TutorialStep'' None
           [fixture_block ''run'' ''shell'' ''npm start'',
            fixture_block ''app.js'' ''js'' ''x'',
            fixture_block ''index.js'' ''jsx'' ''z'']]] [] =
     (0, [[(''index.js'', \<lparr>code = '''', language = ''js''\<rparr>),
           (''app.js'', \<lparr>code = '''', language = ''js''\<rparr>)]])"
  using parseProjectStateFromChildren_first_wins [of fixture_utils
     "[Node ''TutorialStep'' None [fixture_block ''index.js'' ''js'' ''a'', Node ''p'' None []],
      Node ''p'' None [fixture_block ''no.js'' ''js'' ''a''],
      Node ''TutorialSection'' None
        [Node ''TutorialStep'' None
           [fixture_block ''run'' ''shell'' ''npm start'',
            fixture_block ''app.js'' ''js'' ''x'',
            fixture_block ''index.js'' ''jsx'' ''z'']]]" "[]"]
  by (simp add: fixture_utils_def fixture_block_def)

section \<open>The example of the specification\<close>

text \<open>
  What \<^verbatim>\<open>Tutorial.js\<close> decides of the example in which the \<^verbatim>\<open>Project\<close> config has one
  code block, for \<^verbatim>\<open>index.js\<close> with code \<^verbatim>\<open>a\<close>, and step 1 has one code block, for
  \<^verbatim>\<open>index.js\<close> with code \<^verbatim>\<open>b\<close>: the initial ProjectState maps \<^verbatim>\<open>index.js\<close> to code
  \<^verbatim>\<open>a\<close>; the step emits one editor node with \<open>focusedFileName = index.js\<close>, whose diff
  is what \<^verbatim>\<open>diffLines\<close> returns for the old text \<^verbatim>\<open>a\<close> and the new text \<^verbatim>\<open>b\<close>; the
  ProjectState after the step is a new Map that maps \<^verbatim>\<open>index.js\<close> to code \<^verbatim>\<open>b\<close>. What
  the diff holds is the package's to say, and is not stated here.
\<close>

lemma project_then_step_example:
  assumes config: "isCodeBlock u configBlock" "\<not> isShellCommand u configBlock"
      "parseCodeBlockProps u configBlock = \<lparr>code = ''a'', language = l, fileName = ''index.js''\<rparr>"
    and step: "isCodeBlock u stepBlock" "\<not> isShellCommand u stepBlock"
      "parseCodeBlockProps u stepBlock = \<lparr>code = ''b'', language = l', fileName = ''index.js''\<rparr>"
  shows "parseProjectStateFromConfig u (Node ''Project'' r [configBlock]) h =
           (length h, h @ [[(''index.js'', \<lparr>code = ''a'', language = l\<rparr>)]])
         \<and> swapCodeBlocks u (Node ''TutorialStep'' r' [stepBlock]) (length h)
             (h @ [[(''index.js'', \<lparr>code = ''a'', language = l\<rparr>)]]) =
           (Inr ([TutorialEditor 0 ''index.js'' (diffLines u ''a'' ''b'') (Suc (length h))],
                 Suc (length h)),
            h @ [[(''index.js'', \<lparr>code = ''a'', language = l\<rparr>)],
                 [(''index.js'', \<lparr>code = ''b'', language = l'\<rparr>)]])
         \<and> Map_get (h @ [[(''index.js'', \<lparr>code = ''a'', language = l\<rparr>)],
                         [(''index.js'', \<lparr>code = ''b'', language = l'\<rparr>)]])
             (Suc (length h)) ''index.js'' = Some \<lparr>code = ''b'', language = l'\<rparr>"
proof -
  have "parseProjectStateFromConfig u (Node ''Project'' r [configBlock]) h =
           (length h, h @ [[(''index.js'', \<lparr>code = ''a'', language = l\<rparr>)]])"
    using config
    by (simp add: parseProjectStateFromConfig_def Map_new_def Map_has_def Map_set_def)
  moreover have "swapCodeBlocks u (Node ''TutorialStep'' r' [stepBlock]) (length h)
             (h @ [[(''index.js'', \<lparr>code = ''a'', language = l\<rparr>)]]) =
           (Inr ([TutorialEditor 0 ''index.js'' (diffLines u ''a'' ''b'') (Suc (length h))],
                 Suc (length h)),
            h @ [[(''index.js'', \<lparr>code = ''a'', language = l\<rparr>)],
                 [(''index.js'', \<lparr>code = ''b'', language = l'\<rparr>)]])"
  proof -
    have "Map_get (h @ [[(''index.js'', \<lparr>code = ''a'', language = l\<rparr>)]]) (length h)
        (fileName (parseCodeBlockProps u stepBlock)) = Some \<lparr>code = ''a'', language = l\<rparr>"
      by (simp add: step(3) Map_get_def)
    from callback_swap [OF step(1) step(2) this] show ?thesis
      by (simp add: swapCodeBlocks_def step(3))
  qed
  moreover have "Map_get (h @ [[(''index.js'', \<lparr>code = ''a'', language = l\<rparr>)],
                         [(''index.js'', \<lparr>code = ''b'', language = l'\<rparr>)]])
             (Suc (length h)) ''index.js'' = Some \<lparr>code = ''b'', language = l'\<rparr>"
    by (simp add: Map_get_def nth_append)
  ultimately show ?thesis by simp
qed

end
